theory Spec2Isabelle
  imports Main
begin

section \<open>The AST of the Zogue interpreter (package ast)\<close>

text \<open>
  A shallow embedding of \<^verbatim>\<open>src/ast/ast.go\<close>. The node structs are records and every
  method is a function named \<^verbatim>\<open><Struct>_<Method>\<close> on the struct its receiver points
  to.

  Go's nil is made explicit, and a panic is the \<open>Inl\<close> branch of a result.
  \<^item> A pointer \<^verbatim>\<open>*T\<close> is a \<open>T option\<close>, \<open>None\<close> being the nil pointer. Every method reads
    a field of its receiver before it does anything else, so a call through a pointer
    is \<open>deref\<close> followed by the method's function.
  \<^item> A value of the interface types \<^verbatim>\<open>Statement\<close> and \<^verbatim>\<open>Expression\<close> is either the nil
    interface or a pointer to one of the structs that implement it, and that pointer may
    itself be nil: \<^verbatim>\<open>Expression((*Identifier)(nil))\<close> is not the nil interface, and
    \<^verbatim>\<open>!= nil\<close> holds of it.
\<close>

subsection \<open>Tokens\<close>

text \<open>
  Modelled from the spec: package \<^verbatim>\<open>zogue/token\<close> is imported by the source but is not
  part of it. A token is a pair of a kind tag and a literal text; the kinds the AST
  names are LET, RETURN and IDENT, any other kind is kept by its tag text.
\<close>

datatype TokenType = LET | RETURN | IDENT | OtherType string

record Token =
  Type :: TokenType
  Literal :: string

subsection \<open>Run-time failures and the output buffer\<close>

datatype panic = NilPointerDereference | IndexOutOfRange

text \<open>Following a pointer.\<close>

definition deref :: "'a option \<Rightarrow> panic + 'a" where
  "deref p = (case p of None \<Rightarrow> Inl NilPointerDereference | Some x \<Rightarrow> Inr x)"

text \<open>The slice read \<^verbatim>\<open>xs[i]\<close>, which panics out of range.\<close>

definition index :: "'a list \<Rightarrow> nat \<Rightarrow> panic + 'a" where
  "index xs i = (if i < length xs then Inr (xs ! i) else Inl IndexOutOfRange)"

text \<open>
  \<^verbatim>\<open>bytes.Buffer\<close>: the buffer is its contents, \<^verbatim>\<open>var out bytes.Buffer\<close> is the empty
  buffer, \<^verbatim>\<open>WriteString\<close> appends and \<^verbatim>\<open>String\<close> reads the contents.
\<close>

type_synonym Buffer = string

definition new_Buffer :: Buffer where
  "new_Buffer = []"

definition WriteString :: "Buffer \<Rightarrow> string \<Rightarrow> Buffer" where
  "WriteString out s = out @ s"

definition Buffer_String :: "Buffer \<Rightarrow> string" where
  "Buffer_String out = out"

subsection \<open>Node shapes\<close>

record Identifier =
  Token :: Token
  Value :: string

text \<open>The Expression interface: nil, or a \<^verbatim>\<open>*Identifier\<close>.\<close>

datatype Expression = NilExpression | IdentifierExpr "Identifier option"

record LetStatement =
  Token :: Token
  Name :: "Identifier option"
  Value :: Expression

record ReturnStatement =
  Token :: Token
  ReturnValue :: Expression

record ExpressionStatement =
  Token :: Token
  Expression :: Expression

text \<open>
  The Statement interface: nil, or a \<^verbatim>\<open>*LetStatement\<close>, a \<^verbatim>\<open>*ReturnStatement\<close> or an
  \<^verbatim>\<open>*ExpressionStatement\<close>.
\<close>

datatype Statement =
  NilStatement
| LetStmt "LetStatement option"
| ReturnStmt "ReturnStatement option"
| ExprStmt "ExpressionStatement option"

record Program =
  Statements :: "Statement list"

text \<open>What a method of the Node interface is called on: a \<^verbatim>\<open>*Program\<close>, a Statement or an Expression.\<close>

datatype Node = ProgramNode "Program option" | StatementNode Statement | ExpressionNode Expression

subsection \<open>Identifier and the Expression interface\<close>

definition Identifier_TokenLiteral :: "Identifier \<Rightarrow> string" where
  "Identifier_TokenLiteral i = Literal (Identifier.Token i)"

definition Identifier_String :: "Identifier \<Rightarrow> string" where
  "Identifier_String i = Identifier.Value i"

text \<open>
  A method call on an Expression value: on the nil interface the call itself panics; on
  a \<^verbatim>\<open>*Identifier\<close> the method runs and panics when it reads through a nil receiver.
\<close>

fun Expression_TokenLiteral :: "Expression \<Rightarrow> panic + string" where
  "Expression_TokenLiteral NilExpression = Inl NilPointerDereference"
| "Expression_TokenLiteral (IdentifierExpr p) =
     (case deref p of Inl e \<Rightarrow> Inl e | Inr i \<Rightarrow> Inr (Identifier_TokenLiteral i))"

fun Expression_String :: "Expression \<Rightarrow> panic + string" where
  "Expression_String NilExpression = Inl NilPointerDereference"
| "Expression_String (IdentifierExpr p) =
     (case deref p of Inl e \<Rightarrow> Inl e | Inr i \<Rightarrow> Inr (Identifier_String i))"

subsection \<open>LetStatement\<close>

definition LetStatement_TokenLiteral :: "LetStatement \<Rightarrow> string" where
  "LetStatement_TokenLiteral ls = Literal (LetStatement.Token ls)"

text \<open>
  \<^verbatim>\<open>ls.Name.String()\<close> reads \<^verbatim>\<open>Value\<close> through the pointer \<^verbatim>\<open>Name\<close> with no nil test
  before it; \<^verbatim>\<open>ls.Value.String()\<close> is under \<^verbatim>\<open>if ls.Value != nil\<close>.
\<close>

definition LetStatement_String :: "LetStatement \<Rightarrow> panic + string" where
  "LetStatement_String ls =
     (let out = WriteString new_Buffer (LetStatement_TokenLiteral ls @ '' '') in
      case deref (Name ls) of
        Inl e \<Rightarrow> Inl e
      | Inr i \<Rightarrow>
          (let out = WriteString out (Identifier_String i);
               out = WriteString out '' = '' in
           if LetStatement.Value ls \<noteq> NilExpression then
             (case Expression_String (LetStatement.Value ls) of
                Inl e \<Rightarrow> Inl e
              | Inr t \<Rightarrow>
                  (let out = WriteString out t;
                       out = WriteString out '';'' in
                   Inr (Buffer_String out)))
           else
             (let out = WriteString out '';'' in
              Inr (Buffer_String out))))"

subsection \<open>ReturnStatement\<close>

definition ReturnStatement_TokenLiteral :: "ReturnStatement \<Rightarrow> string" where
  "ReturnStatement_TokenLiteral rs = Literal (ReturnStatement.Token rs)"

definition ReturnStatement_String :: "ReturnStatement \<Rightarrow> panic + string" where
  "ReturnStatement_String rs =
     (let out = WriteString new_Buffer (ReturnStatement_TokenLiteral rs @ '' '') in
      if ReturnValue rs \<noteq> NilExpression then
        (case Expression_String (ReturnValue rs) of
           Inl e \<Rightarrow> Inl e
         | Inr t \<Rightarrow>
             (let out = WriteString out t;
                  out = WriteString out '';'' in
              Inr (Buffer_String out)))
      else
        (let out = WriteString out '';'' in
         Inr (Buffer_String out)))"

subsection \<open>ExpressionStatement\<close>

definition ExpressionStatement_TokenLiteral :: "ExpressionStatement \<Rightarrow> string" where
  "ExpressionStatement_TokenLiteral es = Literal (ExpressionStatement.Token es)"

definition ExpressionStatement_String :: "ExpressionStatement \<Rightarrow> panic + string" where
  "ExpressionStatement_String es =
     (if Expression es \<noteq> NilExpression then Expression_String (Expression es)
      else Inr [])"

subsection \<open>The Statement interface\<close>

fun Statement_TokenLiteral :: "Statement \<Rightarrow> panic + string" where
  "Statement_TokenLiteral NilStatement = Inl NilPointerDereference"
| "Statement_TokenLiteral (LetStmt p) =
     (case deref p of Inl e \<Rightarrow> Inl e | Inr ls \<Rightarrow> Inr (LetStatement_TokenLiteral ls))"
| "Statement_TokenLiteral (ReturnStmt p) =
     (case deref p of Inl e \<Rightarrow> Inl e | Inr rs \<Rightarrow> Inr (ReturnStatement_TokenLiteral rs))"
| "Statement_TokenLiteral (ExprStmt p) =
     (case deref p of Inl e \<Rightarrow> Inl e | Inr es \<Rightarrow> Inr (ExpressionStatement_TokenLiteral es))"

fun Statement_String :: "Statement \<Rightarrow> panic + string" where
  "Statement_String NilStatement = Inl NilPointerDereference"
| "Statement_String (LetStmt p) =
     (case deref p of Inl e \<Rightarrow> Inl e | Inr ls \<Rightarrow> LetStatement_String ls)"
| "Statement_String (ReturnStmt p) =
     (case deref p of Inl e \<Rightarrow> Inl e | Inr rs \<Rightarrow> ReturnStatement_String rs)"
| "Statement_String (ExprStmt p) =
     (case deref p of Inl e \<Rightarrow> Inl e | Inr es \<Rightarrow> ExpressionStatement_String es)"

subsection \<open>Program\<close>

text \<open>
  The loop \<^verbatim>\<open>for _, s := range p.Statements { out.WriteString(s.String()) }\<close>, with the
  buffer as its accumulator; a panic in a statement's \<^verbatim>\<open>String\<close> ends it.
\<close>

fun Program_String_loop :: "Statement list \<Rightarrow> Buffer \<Rightarrow> panic + Buffer" where
  "Program_String_loop [] out = Inr out"
| "Program_String_loop (s # ss) out =
     (case Statement_String s of
        Inl e \<Rightarrow> Inl e
      | Inr t \<Rightarrow> Program_String_loop ss (WriteString out t))"

definition Program_String :: "Program \<Rightarrow> panic + string" where
  "Program_String p =
     (case Program_String_loop (Statements p) new_Buffer of
        Inl e \<Rightarrow> Inl e
      | Inr out \<Rightarrow> Inr (Buffer_String out))"

definition Program_TokenLiteral :: "Program \<Rightarrow> panic + string" where
  "Program_TokenLiteral p =
     (if length (Statements p) > 0 then
        (case index (Statements p) 0 of
           Inl e \<Rightarrow> Inl e
         | Inr s \<Rightarrow> Statement_TokenLiteral s)
      else Inr [])"

subsection \<open>The Node interface\<close>

fun Node_TokenLiteral :: "Node \<Rightarrow> panic + string" where
  "Node_TokenLiteral (ProgramNode pp) =
     (case deref pp of Inl e \<Rightarrow> Inl e | Inr p \<Rightarrow> Program_TokenLiteral p)"
| "Node_TokenLiteral (StatementNode s) = Statement_TokenLiteral s"
| "Node_TokenLiteral (ExpressionNode e) = Expression_TokenLiteral e"

fun Node_String :: "Node \<Rightarrow> panic + string" where
  "Node_String (ProgramNode pp) =
     (case deref pp of Inl e \<Rightarrow> Inl e | Inr p \<Rightarrow> Program_String p)"
| "Node_String (StatementNode s) = Statement_String s"
| "Node_String (ExpressionNode e) = Expression_String e"

subsection \<open>Well-formed nodes\<close>

text \<open>
  A node is well formed when every pointer in it refers to a struct: no interface value
  wraps a nil pointer, no element of \<^verbatim>\<open>Statements\<close> is nil, and the \<^verbatim>\<open>Name\<close> of a let
  statement is set. The three optional children \<^verbatim>\<open>Value\<close>, \<^verbatim>\<open>ReturnValue\<close> and
  \<^verbatim>\<open>Expression\<close> may be absent, that is, the nil interface.
\<close>

fun Expression_wellformed :: "Expression \<Rightarrow> bool" where
  "Expression_wellformed NilExpression = False"
| "Expression_wellformed (IdentifierExpr p) = (p \<noteq> None)"

fun optional_wellformed :: "Expression \<Rightarrow> bool" where
  "optional_wellformed NilExpression = True"
| "optional_wellformed (IdentifierExpr p) = (p \<noteq> None)"

fun Statement_wellformed :: "Statement \<Rightarrow> bool" where
  "Statement_wellformed NilStatement = False"
| "Statement_wellformed (LetStmt p) =
     (case p of None \<Rightarrow> False
      | Some ls \<Rightarrow> Name ls \<noteq> None \<and> optional_wellformed (LetStatement.Value ls))"
| "Statement_wellformed (ReturnStmt p) =
     (case p of None \<Rightarrow> False | Some rs \<Rightarrow> optional_wellformed (ReturnValue rs))"
| "Statement_wellformed (ExprStmt p) =
     (case p of None \<Rightarrow> False | Some es \<Rightarrow> optional_wellformed (Expression es))"

fun Node_wellformed :: "Node \<Rightarrow> bool" where
  "Node_wellformed (ProgramNode pp) =
     (case pp of None \<Rightarrow> False | Some p \<Rightarrow> list_all Statement_wellformed (Statements p))"
| "Node_wellformed (StatementNode s) = Statement_wellformed s"
| "Node_wellformed (ExpressionNode e) = Expression_wellformed e"

subsection \<open>Calls and the receiver\<close>

text \<open>
  Every method has a pointer receiver, so a call is able to write to the node it is
  called on and, through the node's fields, to the nodes below it. The functions of
  this subsection make that state explicit: a call takes the receiver and returns the
  receiver as the call leaves it, together with the result. A child that a call goes
  through is stored back into its field, a statement into its place in the slice. The
  bodies are the ones above, statement by statement; when a call panics, the receiver
  is returned as it is at that point.
\<close>

definition Identifier_String_call :: "Identifier \<Rightarrow> Identifier \<times> string" where
  "Identifier_String_call i = (i, Identifier.Value i)"

fun Expression_String_call :: "Expression \<Rightarrow> Expression \<times> (panic + string)" where
  "Expression_String_call NilExpression = (NilExpression, Inl NilPointerDereference)"
| "Expression_String_call (IdentifierExpr p) =
     (case deref p of
        Inl e \<Rightarrow> (IdentifierExpr p, Inl e)
      | Inr i \<Rightarrow> (let (i', t) = Identifier_String_call i in (IdentifierExpr (Some i'), Inr t)))"

definition LetStatement_String_call :: "LetStatement \<Rightarrow> LetStatement \<times> (panic + string)" where
  "LetStatement_String_call ls =
     (let out = WriteString new_Buffer (LetStatement_TokenLiteral ls @ '' '') in
      case deref (Name ls) of
        Inl e \<Rightarrow> (ls, Inl e)
      | Inr i \<Rightarrow>
          (let (i', t) = Identifier_String_call i;
               ls = ls\<lparr>Name := Some i'\<rparr>;
               out = WriteString out t;
               out = WriteString out '' = '' in
           if LetStatement.Value ls \<noteq> NilExpression then
             (let (v', r) = Expression_String_call (LetStatement.Value ls);
                  ls = ls\<lparr>LetStatement.Value := v'\<rparr> in
              case r of
                Inl e \<Rightarrow> (ls, Inl e)
              | Inr t \<Rightarrow>
                  (let out = WriteString out t;
                       out = WriteString out '';'' in
                   (ls, Inr (Buffer_String out))))
           else
             (let out = WriteString out '';'' in
              (ls, Inr (Buffer_String out)))))"

definition ReturnStatement_String_call ::
  "ReturnStatement \<Rightarrow> ReturnStatement \<times> (panic + string)" where
  "ReturnStatement_String_call rs =
     (let out = WriteString new_Buffer (ReturnStatement_TokenLiteral rs @ '' '') in
      if ReturnValue rs \<noteq> NilExpression then
        (let (v', r) = Expression_String_call (ReturnValue rs);
             rs = rs\<lparr>ReturnValue := v'\<rparr> in
         case r of
           Inl e \<Rightarrow> (rs, Inl e)
         | Inr t \<Rightarrow>
             (let out = WriteString out t;
                  out = WriteString out '';'' in
              (rs, Inr (Buffer_String out))))
      else
        (let out = WriteString out '';'' in
         (rs, Inr (Buffer_String out))))"

definition ExpressionStatement_String_call ::
  "ExpressionStatement \<Rightarrow> ExpressionStatement \<times> (panic + string)" where
  "ExpressionStatement_String_call es =
     (if Expression es \<noteq> NilExpression then
        (let (v', r) = Expression_String_call (Expression es) in
         (es\<lparr>Expression := v'\<rparr>, r))
      else (es, Inr []))"

fun Statement_String_call :: "Statement \<Rightarrow> Statement \<times> (panic + string)" where
  "Statement_String_call NilStatement = (NilStatement, Inl NilPointerDereference)"
| "Statement_String_call (LetStmt p) =
     (case deref p of
        Inl e \<Rightarrow> (LetStmt p, Inl e)
      | Inr ls \<Rightarrow> (let (ls', r) = LetStatement_String_call ls in (LetStmt (Some ls'), r)))"
| "Statement_String_call (ReturnStmt p) =
     (case deref p of
        Inl e \<Rightarrow> (ReturnStmt p, Inl e)
      | Inr rs \<Rightarrow> (let (rs', r) = ReturnStatement_String_call rs in (ReturnStmt (Some rs'), r)))"
| "Statement_String_call (ExprStmt p) =
     (case deref p of
        Inl e \<Rightarrow> (ExprStmt p, Inl e)
      | Inr es \<Rightarrow>
          (let (es', r) = ExpressionStatement_String_call es in (ExprStmt (Some es'), r)))"

fun Program_String_loop_call ::
  "Statement list \<Rightarrow> Buffer \<Rightarrow> Statement list \<times> (panic + Buffer)" where
  "Program_String_loop_call [] out = ([], Inr out)"
| "Program_String_loop_call (s # ss) out =
     (let (s', r) = Statement_String_call s in
      case r of
        Inl e \<Rightarrow> (s' # ss, Inl e)
      | Inr t \<Rightarrow>
          (let (ss', r') = Program_String_loop_call ss (WriteString out t) in
           (s' # ss', r')))"

definition Program_String_call :: "Program \<Rightarrow> Program \<times> (panic + string)" where
  "Program_String_call p =
     (let (ss', r) = Program_String_loop_call (Statements p) new_Buffer;
          p = p\<lparr>Statements := ss'\<rparr> in
      case r of
        Inl e \<Rightarrow> (p, Inl e)
      | Inr out \<Rightarrow> (p, Inr (Buffer_String out)))"

fun Node_String_call :: "Node \<Rightarrow> Node \<times> (panic + string)" where
  "Node_String_call (ProgramNode pp) =
     (case deref pp of
        Inl e \<Rightarrow> (ProgramNode pp, Inl e)
      | Inr p \<Rightarrow> (let (p', r) = Program_String_call p in (ProgramNode (Some p'), r)))"
| "Node_String_call (StatementNode s) =
     (let (s', r) = Statement_String_call s in (StatementNode s', r))"
| "Node_String_call (ExpressionNode e) =
     (let (e', r) = Expression_String_call e in (ExpressionNode e', r))"

section \<open>Properties\<close>

subsection \<open>Closed forms of the String methods\<close>

lemmas buffer_defs = new_Buffer_def WriteString_def Buffer_String_def

lemma deref_Some: "deref (Some x) = Inr x"
  by (simp add: deref_def)

lemma deref_None: "deref None = Inl NilPointerDereference"
  by (simp add: deref_def)

lemma Expression_String_Identifier:
  "Expression_String (IdentifierExpr (Some i)) = Inr (Identifier.Value i)"
  by (simp add: deref_Some Identifier_String_def)

lemma Expression_String_typed_nil:
  "Expression_String (IdentifierExpr None) = Inl NilPointerDereference"
  by (simp add: deref_None)

lemma Expression_String_wellformed:
  "optional_wellformed e \<Longrightarrow> e \<noteq> NilExpression \<Longrightarrow> \<exists>t. Expression_String e = Inr t"
  by (cases e) (auto simp: deref_Some)

lemma ReturnStatement_String_eq:
  "ReturnStatement_String rs =
     (if ReturnValue rs = NilExpression then Inr (Literal (ReturnStatement.Token rs) @ '' ;'')
      else case Expression_String (ReturnValue rs) of
             Inl e \<Rightarrow> Inl e
           | Inr t \<Rightarrow> Inr (Literal (ReturnStatement.Token rs) @ '' '' @ t @ '';''))"
  by (simp add: ReturnStatement_String_def ReturnStatement_TokenLiteral_def buffer_defs
      split: sum.split)

lemma LetStatement_String_eq:
  "LetStatement_String ls =
     (case Name ls of
        None \<Rightarrow> Inl NilPointerDereference
      | Some i \<Rightarrow>
          if LetStatement.Value ls = NilExpression
          then Inr (Literal (LetStatement.Token ls) @ '' '' @ Identifier.Value i @ '' = ;'')
          else case Expression_String (LetStatement.Value ls) of
                 Inl e \<Rightarrow> Inl e
               | Inr t \<Rightarrow>
                   Inr (Literal (LetStatement.Token ls) @ '' '' @ Identifier.Value i @ '' = '' @
                        t @ '';''))"
  by (cases "Name ls")
     (simp_all add: LetStatement_String_def LetStatement_TokenLiteral_def Identifier_String_def
        buffer_defs deref_Some deref_None split: sum.split)

lemma ExpressionStatement_String_eq:
  "ExpressionStatement_String es =
     (if Expression es = NilExpression then Inr [] else Expression_String (Expression es))"
  by (simp add: ExpressionStatement_String_def)

text \<open>
  Where a pointer is nil the methods panic: a let statement with a nil \<^verbatim>\<open>Name\<close>, and a
  return statement whose \<^verbatim>\<open>ReturnValue\<close> wraps a nil \<^verbatim>\<open>*Identifier\<close>, which the test
  \<^verbatim>\<open>!= nil\<close> lets through.
\<close>

lemma LetStatement_String_nil_Name:
  "Name ls = None \<Longrightarrow> LetStatement_String ls = Inl NilPointerDereference"
  by (simp add: LetStatement_String_eq)

lemma ReturnStatement_String_typed_nil:
  "ReturnValue rs = IdentifierExpr None \<Longrightarrow> ReturnStatement_String rs = Inl NilPointerDereference"
  by (simp add: ReturnStatement_String_eq deref_None)

lemma Statement_String_wellformed:
  "Statement_wellformed s \<Longrightarrow> \<exists>t. Statement_String s = Inr t"
proof (cases s)
  case NilStatement
  assume "Statement_wellformed s"
  with NilStatement show ?thesis by simp
next
  case (LetStmt p)
  assume "Statement_wellformed s"
  with LetStmt obtain ls i where p: "p = Some ls" and n: "Name ls = Some i"
    and v: "optional_wellformed (LetStatement.Value ls)"
    by (auto split: option.splits)
  show ?thesis
  proof (cases "LetStatement.Value ls = NilExpression")
    case True
    then show ?thesis by (simp add: LetStmt p n deref_Some LetStatement_String_eq)
  next
    case False
    with v obtain t where "Expression_String (LetStatement.Value ls) = Inr t"
      using Expression_String_wellformed by blast
    with False show ?thesis by (simp add: LetStmt p n deref_Some LetStatement_String_eq)
  qed
next
  case (ReturnStmt p)
  assume "Statement_wellformed s"
  with ReturnStmt obtain rs where p: "p = Some rs" and v: "optional_wellformed (ReturnValue rs)"
    by (auto split: option.splits)
  show ?thesis
  proof (cases "ReturnValue rs = NilExpression")
    case True
    then show ?thesis by (simp add: ReturnStmt p deref_Some ReturnStatement_String_eq)
  next
    case False
    with v obtain t where "Expression_String (ReturnValue rs) = Inr t"
      using Expression_String_wellformed by blast
    with False show ?thesis by (simp add: ReturnStmt p deref_Some ReturnStatement_String_eq)
  qed
next
  case (ExprStmt p)
  assume "Statement_wellformed s"
  with ExprStmt obtain es where p: "p = Some es" and v: "optional_wellformed (Expression es)"
    by (auto split: option.splits)
  show ?thesis
  proof (cases "Expression es = NilExpression")
    case True
    then show ?thesis by (simp add: ExprStmt p deref_Some ExpressionStatement_String_eq)
  next
    case False
    with v obtain t where "Expression_String (Expression es) = Inr t"
      using Expression_String_wellformed by blast
    with False show ?thesis by (simp add: ExprStmt p deref_Some ExpressionStatement_String_eq)
  qed
qed

lemma Statement_TokenLiteral_wellformed:
  "Statement_wellformed s \<Longrightarrow> \<exists>t. Statement_TokenLiteral s = Inr t"
  by (cases s) (auto simp: deref_Some split: option.splits)

lemma Statement_TokenLiteral_in_range: "Statement_TokenLiteral s \<noteq> Inl IndexOutOfRange"
  by (cases s) (auto simp: deref_def split: option.splits)

subsection \<open>The loop of Program.String\<close>

lemma Program_String_loop_append:
  "map Statement_String ss = map Inr ts \<Longrightarrow> Program_String_loop ss out = Inr (out @ concat ts)"
proof (induction ss arbitrary: out ts)
  case Nil
  then show ?case by simp
next
  case (Cons s ss)
  then obtain t ts' where ts: "ts = t # ts'" and s: "Statement_String s = Inr t"
    and rest: "map Statement_String ss = map Inr ts'"
    by (cases ts) auto
  from Cons.IH [OF rest] show ?case
    by (simp add: s ts WriteString_def)
qed

lemma Program_String_loop_total:
  "list_all Statement_wellformed ss \<Longrightarrow> \<exists>t. Program_String_loop ss out = Inr t"
proof (induction ss arbitrary: out)
  case Nil
  then show ?case by simp
next
  case (Cons s ss)
  from Cons.prems obtain t where "Statement_String s = Inr t"
    using Statement_String_wellformed by auto
  with Cons show ?case by simp
qed

text \<open>The first statement whose \<^verbatim>\<open>String\<close> panics makes the program's \<^verbatim>\<open>String\<close> panic.\<close>

lemma Program_String_loop_panic:
  "map Statement_String ss = map Inr ts \<Longrightarrow> Statement_String s = Inl e \<Longrightarrow>
   Program_String_loop (ss @ s # rest) out = Inl e"
proof (induction ss arbitrary: out ts)
  case Nil
  then show ?case by simp
next
  case (Cons a ss)
  then obtain t ts' where "Statement_String a = Inr t" "map Statement_String ss = map Inr ts'"
    by (cases ts) auto
  with Cons show ?case by simp
qed

lemma Program_TokenLiteral_eq:
  "Program_TokenLiteral p =
     (case Statements p of [] \<Rightarrow> Inr [] | s # ss \<Rightarrow> Statement_TokenLiteral s)"
  by (cases "Statements p") (simp_all add: Program_TokenLiteral_def index_def)

subsection \<open>ReturnStatement\<close>

text \<open>
  C1, as the claim states it, fails: a return statement with token literal
  \<^verbatim>\<open>return\<close> and no return value does not render as \<^verbatim>\<open>return;\<close>. The separating
  space is written together with the token literal, before the value is looked at.
\<close>

theorem ReturnStatement_String_bare_counterexample:
  "ReturnStatement_String (
      \<lparr>ReturnStatement.Token = \<lparr>Type = RETURN, Literal = ''return''\<rparr>,
        ReturnValue = NilExpression\<rparr>)
   \<noteq> Inr ''return;''"
  by (simp add: ReturnStatement_String_eq)

text \<open>
  C1, amended: for every return statement whose token literal is \<^verbatim>\<open>return\<close>,
  \<^verbatim>\<open>String\<close> returns \<^verbatim>\<open>return five;\<close> when the return value is an identifier whose
  name is \<^verbatim>\<open>five\<close>, and returns \<^verbatim>\<open>return ;\<close> when the return value is absent: the
  token literal, the separating space and the semicolon, with nothing in place of the
  value.
\<close>

theorem ReturnStatement_String_return:
  assumes "Literal (ReturnStatement.Token rs) = ''return''"
    and "Identifier.Value i = ''five''"
  shows "ReturnStatement_String (rs\<lparr>ReturnValue := IdentifierExpr (Some i)\<rparr>) = Inr ''return five;''
       \<and> ReturnStatement_String (rs\<lparr>ReturnValue := NilExpression\<rparr>) = Inr ''return ;''"
  using assms by (simp add: ReturnStatement_String_eq deref_Some Identifier_String_def)

theorem ReturnStatement_String_return_witness:
  "Literal (ReturnStatement.Token (
      \<lparr>ReturnStatement.Token = \<lparr>Type = RETURN, Literal = ''return''\<rparr>,
        ReturnValue = NilExpression\<rparr>)) = ''return''
   \<and> Identifier.Value (
      \<lparr>Identifier.Token = \<lparr>Type = IDENT, Literal = ''five''\<rparr>,
        Value = ''five''\<rparr>) = ''five''
   \<and> ReturnStatement_String (
      \<lparr>ReturnStatement.Token = \<lparr>Type = RETURN, Literal = ''return''\<rparr>,
        ReturnValue = IdentifierExpr (Some \<lparr>Identifier.Token = \<lparr>Type = IDENT,
        Literal = ''five''\<rparr>, Value = ''five''\<rparr>)\<rparr>) = Inr ''return five;''
   \<and> ReturnStatement_String (
      \<lparr>ReturnStatement.Token = \<lparr>Type = RETURN, Literal = ''return''\<rparr>,
        ReturnValue = NilExpression\<rparr>) = Inr ''return ;''"
  using ReturnStatement_String_return
    [of "\<lparr>ReturnStatement.Token = \<lparr>Type = RETURN, Literal = ''return''\<rparr>,
          ReturnValue = NilExpression\<rparr>"
        "\<lparr>Identifier.Token = \<lparr>Type = IDENT, Literal = ''five''\<rparr>,
          Value = ''five''\<rparr>"]
  by simp

subsection \<open>Identifier\<close>

text \<open>
  C2, as the claim states it, fails: the struct has two independent exported fields, and
  an identifier built with a name that differs from its token's literal renders the name
  while its token literal is the token's.
\<close>

theorem Identifier_String_TokenLiteral_counterexample:
  "Identifier_String \<lparr>Identifier.Token = \<lparr>Type = IDENT, Literal = ''x''\<rparr>, Value = ''y''\<rparr>
   \<noteq> Literal (Identifier.Token
        \<lparr>Identifier.Token = \<lparr>Type = IDENT, Literal = ''x''\<rparr>, Value = ''y''\<rparr>)"
  by (simp add: Identifier_String_def)

text \<open>
  C2, amended: for every identifier, \<^verbatim>\<open>String\<close> returns the name and \<^verbatim>\<open>TokenLiteral\<close>
  returns the token's literal; for every identifier whose name equals its token's
  literal, the three texts are equal.
\<close>

theorem Identifier_String_TokenLiteral:
  "Identifier_String i = Identifier.Value i
   \<and> Identifier_TokenLiteral i = Literal (Identifier.Token i)
   \<and> (Identifier.Value i = Literal (Identifier.Token i) \<longrightarrow>
        Identifier_String i = Literal (Identifier.Token i)
        \<and> Literal (Identifier.Token i) = Identifier.Value i
        \<and> Identifier_String i = Identifier_TokenLiteral i)"
  by (simp add: Identifier_String_def Identifier_TokenLiteral_def)

theorem Identifier_String_TokenLiteral_witness:
  "Identifier.Value (
      \<lparr>Identifier.Token = \<lparr>Type = IDENT, Literal = ''x''\<rparr>,
        Value = ''x''\<rparr>)
     = Literal (Identifier.Token (
      \<lparr>Identifier.Token = \<lparr>Type = IDENT, Literal = ''x''\<rparr>,
        Value = ''x''\<rparr>))
   \<and> Identifier_String (
      \<lparr>Identifier.Token = \<lparr>Type = IDENT, Literal = ''x''\<rparr>,
        Value = ''x''\<rparr>) = ''x''
   \<and> Identifier_TokenLiteral (
      \<lparr>Identifier.Token = \<lparr>Type = IDENT, Literal = ''x''\<rparr>,
        Value = ''x''\<rparr>) = ''x''"
  using Identifier_String_TokenLiteral
    [of "\<lparr>Identifier.Token = \<lparr>Type = IDENT, Literal = ''x''\<rparr>,
          Value = ''x''\<rparr>"]
  by simp

subsection \<open>Totality\<close>

text \<open>
  C3: for every well-formed node of the five shapes, whether its optional children
  \<^verbatim>\<open>Value\<close>, \<^verbatim>\<open>ReturnValue\<close> and \<^verbatim>\<open>Expression\<close> are present or absent,
  \<^verbatim>\<open>TokenLiteral\<close> and \<^verbatim>\<open>String\<close> both return a text: neither panics.
\<close>

theorem Node_TokenLiteral_String_total:
  assumes "Node_wellformed n"
  shows "(\<exists>t. Node_TokenLiteral n = Inr t) \<and> (\<exists>s. Node_String n = Inr s)"
proof (cases n)
  case (ProgramNode pp)
  with assms obtain p where pp: "pp = Some p"
    and ss: "list_all Statement_wellformed (Statements p)"
    by (auto split: option.splits)
  from Program_String_loop_total [OF ss, of new_Buffer]
  have "\<exists>s. Program_String p = Inr s"
    by (auto simp: Program_String_def)
  moreover have "\<exists>t. Program_TokenLiteral p = Inr t"
    using ss Statement_TokenLiteral_wellformed
    by (auto simp: Program_TokenLiteral_eq split: list.split)
  ultimately show ?thesis
    using ProgramNode pp by (simp add: deref_Some)
next
  case (StatementNode s)
  with assms show ?thesis
    using Statement_String_wellformed Statement_TokenLiteral_wellformed by simp
next
  case (ExpressionNode e)
  with assms show ?thesis
    by (cases e) (auto simp: deref_Some)
qed

theorem Node_TokenLiteral_String_total_witness:
  "Node_wellformed (
      ProgramNode (Some \<lparr>Statements = [LetStmt (Some \<lparr>LetStatement.Token = \<lparr>Type = LET,
        Literal = ''let''\<rparr>, Name = Some \<lparr>Identifier.Token = \<lparr>Type = IDENT,
        Literal = ''x''\<rparr>, Value = ''x''\<rparr>, Value = NilExpression\<rparr>),
        ReturnStmt (Some \<lparr>ReturnStatement.Token = \<lparr>Type = RETURN,
        Literal = ''return''\<rparr>, ReturnValue = NilExpression\<rparr>),
        ExprStmt (Some \<lparr>ExpressionStatement.Token = \<lparr>Type = IDENT,
        Literal = ''foobar''\<rparr>, Expression = NilExpression\<rparr>)]\<rparr>))
   \<and> (\<exists>t. Node_TokenLiteral (
      ProgramNode (Some \<lparr>Statements = [LetStmt (Some \<lparr>LetStatement.Token = \<lparr>Type = LET,
        Literal = ''let''\<rparr>, Name = Some \<lparr>Identifier.Token = \<lparr>Type = IDENT,
        Literal = ''x''\<rparr>, Value = ''x''\<rparr>, Value = NilExpression\<rparr>),
        ReturnStmt (Some \<lparr>ReturnStatement.Token = \<lparr>Type = RETURN,
        Literal = ''return''\<rparr>, ReturnValue = NilExpression\<rparr>),
        ExprStmt (Some \<lparr>ExpressionStatement.Token = \<lparr>Type = IDENT,
        Literal = ''foobar''\<rparr>, Expression = NilExpression\<rparr>)]\<rparr>)) = Inr t)
   \<and> (\<exists>s. Node_String (
      ProgramNode (Some \<lparr>Statements = [LetStmt (Some \<lparr>LetStatement.Token = \<lparr>Type = LET,
        Literal = ''let''\<rparr>, Name = Some \<lparr>Identifier.Token = \<lparr>Type = IDENT,
        Literal = ''x''\<rparr>, Value = ''x''\<rparr>, Value = NilExpression\<rparr>),
        ReturnStmt (Some \<lparr>ReturnStatement.Token = \<lparr>Type = RETURN,
        Literal = ''return''\<rparr>, ReturnValue = NilExpression\<rparr>),
        ExprStmt (Some \<lparr>ExpressionStatement.Token = \<lparr>Type = IDENT,
        Literal = ''foobar''\<rparr>, Expression = NilExpression\<rparr>)]\<rparr>)) = Inr s)"
  using Node_TokenLiteral_String_total
    [of "ProgramNode (Some \<lparr>Statements = [LetStmt (Some \<lparr>LetStatement.Token = \<lparr>Type = LET,
          Literal = ''let''\<rparr>,
          Name = Some \<lparr>Identifier.Token = \<lparr>Type = IDENT, Literal = ''x''\<rparr>,
          Value = ''x''\<rparr>, Value = NilExpression\<rparr>),
          ReturnStmt (Some \<lparr>ReturnStatement.Token = \<lparr>Type = RETURN,
          Literal = ''return''\<rparr>, ReturnValue = NilExpression\<rparr>),
          ExprStmt (Some \<lparr>ExpressionStatement.Token = \<lparr>Type = IDENT,
          Literal = ''foobar''\<rparr>, Expression = NilExpression\<rparr>)]\<rparr>)"]
  by simp

subsection \<open>Program.TokenLiteral\<close>

text \<open>
  C4: for every program, \<^verbatim>\<open>TokenLiteral\<close> is the \<^verbatim>\<open>TokenLiteral\<close> of \<^verbatim>\<open>Statements[0]\<close>
  when the slice is not empty and the empty text when it is; the slice read is never out
  of range, on an empty program in particular.
\<close>

theorem Program_TokenLiteral_first:
  "Program_TokenLiteral p =
     (if Statements p = [] then Inr [] else Statement_TokenLiteral (Statements p ! 0))
   \<and> Program_TokenLiteral p \<noteq> Inl IndexOutOfRange"
  by (cases "Statements p") (simp_all add: Program_TokenLiteral_eq Statement_TokenLiteral_in_range)

subsection \<open>LetStatement\<close>

text \<open>
  C5: the let statement with token LET \<^verbatim>\<open>let\<close>, name the identifier \<^verbatim>\<open>x\<close> and value
  the identifier \<^verbatim>\<open>y\<close> renders as exactly \<^verbatim>\<open>let x = y;\<close>.
\<close>

theorem LetStatement_String_let_x_y:
  "LetStatement_String (
      \<lparr>LetStatement.Token = \<lparr>Type = LET, Literal = ''let''\<rparr>,
        Name = Some \<lparr>Identifier.Token = \<lparr>Type = IDENT, Literal = ''x''\<rparr>,
        Value = ''x''\<rparr>,
        Value = IdentifierExpr (Some \<lparr>Identifier.Token = \<lparr>Type = IDENT,
        Literal = ''y''\<rparr>, Value = ''y''\<rparr>)\<rparr>)
   = Inr ''let x = y;''"
  by (simp add: LetStatement_String_eq deref_Some Identifier_String_def)

text \<open>
  C6: for every let statement whose name is present and whose value is absent,
  \<^verbatim>\<open>String\<close> does not panic and returns the token literal, a space, the name's
  rendering and \<^verbatim>\<open> = \<close>, followed by \<^verbatim>\<open>;\<close>, with no text for the value.
\<close>

theorem LetStatement_String_no_Value:
  assumes "Name ls = Some i" and "LetStatement.Value ls = NilExpression"
  shows "LetStatement_String ls =
           Inr (LetStatement_TokenLiteral ls @ '' '' @ Identifier_String i @ '' = '' @ '';'')"
  using assms
  by (simp add: LetStatement_String_eq LetStatement_TokenLiteral_def Identifier_String_def)

theorem LetStatement_String_no_Value_witness:
  "Name (
      \<lparr>LetStatement.Token = \<lparr>Type = LET, Literal = ''let''\<rparr>,
        Name = Some \<lparr>Identifier.Token = \<lparr>Type = IDENT, Literal = ''x''\<rparr>,
        Value = ''x''\<rparr>, Value = NilExpression\<rparr>)
     = Some (
      \<lparr>Identifier.Token = \<lparr>Type = IDENT, Literal = ''x''\<rparr>,
        Value = ''x''\<rparr>)
   \<and> LetStatement.Value (
      \<lparr>LetStatement.Token = \<lparr>Type = LET, Literal = ''let''\<rparr>,
        Name = Some \<lparr>Identifier.Token = \<lparr>Type = IDENT, Literal = ''x''\<rparr>,
        Value = ''x''\<rparr>, Value = NilExpression\<rparr>) = NilExpression
   \<and> LetStatement_String (
      \<lparr>LetStatement.Token = \<lparr>Type = LET, Literal = ''let''\<rparr>,
        Name = Some \<lparr>Identifier.Token = \<lparr>Type = IDENT, Literal = ''x''\<rparr>,
        Value = ''x''\<rparr>, Value = NilExpression\<rparr>) = Inr ''let x = ;''"
  using LetStatement_String_no_Value
    [of "\<lparr>LetStatement.Token = \<lparr>Type = LET, Literal = ''let''\<rparr>,
          Name = Some \<lparr>Identifier.Token = \<lparr>Type = IDENT, Literal = ''x''\<rparr>,
          Value = ''x''\<rparr>, Value = NilExpression\<rparr>"
        "\<lparr>Identifier.Token = \<lparr>Type = IDENT, Literal = ''x''\<rparr>,
          Value = ''x''\<rparr>"]
  by (simp add: LetStatement_TokenLiteral_def Identifier_String_def)

subsection \<open>ExpressionStatement\<close>

text \<open>
  C7, as the claim states it, fails: not every expression statement renders without
  failing. When \<^verbatim>\<open>Expression\<close> wraps a nil \<^verbatim>\<open>*Identifier\<close> the test
  \<^verbatim>\<open>es.Expression != nil\<close> holds and \<^verbatim>\<open>Identifier.String\<close> reads through the nil
  receiver.
\<close>

theorem ExpressionStatement_String_typed_nil_counterexample:
  "ExpressionStatement_String
     \<lparr>ExpressionStatement.Token = \<lparr>Type = IDENT, Literal = ''foobar''\<rparr>,
      Expression = IdentifierExpr None\<rparr>
   = Inl NilPointerDereference"
  by (simp add: ExpressionStatement_String_eq deref_None)

text \<open>
  C7, amended: for every expression statement, \<^verbatim>\<open>String\<close> is the wrapped expression's
  \<^verbatim>\<open>String\<close> when the expression is present and the empty text when it is absent; it
  does not fail when the expression is absent or refers to an identifier (a pointer that
  is not nil). In particular an expression statement that wraps an identifier named
  \<^verbatim>\<open>foobar\<close> renders as exactly \<^verbatim>\<open>foobar\<close>, whatever the two tokens are.
\<close>

theorem ExpressionStatement_String_delegates:
  "ExpressionStatement_String es =
     (if Expression es = NilExpression then Inr [] else Expression_String (Expression es))
   \<and> (optional_wellformed (Expression es) \<longrightarrow> (\<exists>t. ExpressionStatement_String es = Inr t))
   \<and> ExpressionStatement_String
       (es\<lparr>Expression := IdentifierExpr (Some (i\<lparr>Identifier.Value := ''foobar''\<rparr>))\<rparr>)
     = Inr ''foobar''"
  using Expression_String_wellformed [of "Expression es"]
  by (auto simp: ExpressionStatement_String_eq deref_Some Identifier_String_def)

theorem ExpressionStatement_String_delegates_witness:
  "optional_wellformed (Expression (
      \<lparr>ExpressionStatement.Token = \<lparr>Type = IDENT, Literal = ''foobar''\<rparr>,
        Expression = IdentifierExpr (Some \<lparr>Identifier.Token = \<lparr>Type = IDENT,
        Literal = ''foobar''\<rparr>, Value = ''foobar''\<rparr>)\<rparr>))
   \<and> ExpressionStatement_String (
      \<lparr>ExpressionStatement.Token = \<lparr>Type = IDENT, Literal = ''foobar''\<rparr>,
        Expression = IdentifierExpr (Some \<lparr>Identifier.Token = \<lparr>Type = IDENT,
        Literal = ''foobar''\<rparr>, Value = ''foobar''\<rparr>)\<rparr>) = Inr ''foobar''
   \<and> optional_wellformed (Expression (
      \<lparr>ExpressionStatement.Token = \<lparr>Type = IDENT, Literal = ''foobar''\<rparr>,
        Expression = NilExpression\<rparr>))
   \<and> ExpressionStatement_String (
      \<lparr>ExpressionStatement.Token = \<lparr>Type = IDENT, Literal = ''foobar''\<rparr>,
        Expression = NilExpression\<rparr>) = Inr []"
  using ExpressionStatement_String_delegates
    [of "\<lparr>ExpressionStatement.Token = \<lparr>Type = IDENT, Literal = ''foobar''\<rparr>,
          Expression = IdentifierExpr (Some \<lparr>Identifier.Token = \<lparr>Type = IDENT,
          Literal = ''foobar''\<rparr>, Value = ''foobar''\<rparr>)\<rparr>"
        "\<lparr>Identifier.Token = \<lparr>Type = IDENT, Literal = ''x''\<rparr>,
          Value = ''x''\<rparr>"]
    ExpressionStatement_String_delegates
    [of "\<lparr>ExpressionStatement.Token = \<lparr>Type = IDENT, Literal = ''foobar''\<rparr>,
          Expression = NilExpression\<rparr>"
        "\<lparr>Identifier.Token = \<lparr>Type = IDENT, Literal = ''x''\<rparr>,
          Value = ''x''\<rparr>"]
  by (simp add: deref_Some Identifier_String_def)

text \<open>
  C10: two expression statements with the same expression render the same text,
  whatever their tokens are; the token decides \<^verbatim>\<open>TokenLiteral\<close>, which returns its
  literal.
\<close>

theorem ExpressionStatement_String_ignores_Token:
  assumes "Expression a = Expression b"
  shows "ExpressionStatement_String a = ExpressionStatement_String b
       \<and> ExpressionStatement_TokenLiteral a = Literal (ExpressionStatement.Token a)
       \<and> ExpressionStatement_TokenLiteral b = Literal (ExpressionStatement.Token b)"
  using assms
  by (simp add: ExpressionStatement_String_eq ExpressionStatement_TokenLiteral_def)

theorem ExpressionStatement_String_ignores_Token_witness:
  "Expression (
      \<lparr>ExpressionStatement.Token = \<lparr>Type = IDENT, Literal = ''foobar''\<rparr>,
        Expression = IdentifierExpr (Some \<lparr>Identifier.Token = \<lparr>Type = IDENT,
        Literal = ''foobar''\<rparr>, Value = ''foobar''\<rparr>)\<rparr>)
     = Expression (
      \<lparr>ExpressionStatement.Token = \<lparr>Type = OtherType ''INT'',
        Literal = ''5''\<rparr>,
        Expression = IdentifierExpr (Some \<lparr>Identifier.Token = \<lparr>Type = IDENT,
        Literal = ''foobar''\<rparr>, Value = ''foobar''\<rparr>)\<rparr>)
   \<and> ExpressionStatement_String (
      \<lparr>ExpressionStatement.Token = \<lparr>Type = IDENT, Literal = ''foobar''\<rparr>,
        Expression = IdentifierExpr (Some \<lparr>Identifier.Token = \<lparr>Type = IDENT,
        Literal = ''foobar''\<rparr>, Value = ''foobar''\<rparr>)\<rparr>)
     = ExpressionStatement_String (
      \<lparr>ExpressionStatement.Token = \<lparr>Type = OtherType ''INT'',
        Literal = ''5''\<rparr>,
        Expression = IdentifierExpr (Some \<lparr>Identifier.Token = \<lparr>Type = IDENT,
        Literal = ''foobar''\<rparr>, Value = ''foobar''\<rparr>)\<rparr>)
   \<and> ExpressionStatement_TokenLiteral (
      \<lparr>ExpressionStatement.Token = \<lparr>Type = IDENT, Literal = ''foobar''\<rparr>,
        Expression = IdentifierExpr (Some \<lparr>Identifier.Token = \<lparr>Type = IDENT,
        Literal = ''foobar''\<rparr>, Value = ''foobar''\<rparr>)\<rparr>)
     \<noteq> ExpressionStatement_TokenLiteral (
      \<lparr>ExpressionStatement.Token = \<lparr>Type = OtherType ''INT'',
        Literal = ''5''\<rparr>,
        Expression = IdentifierExpr (Some \<lparr>Identifier.Token = \<lparr>Type = IDENT,
        Literal = ''foobar''\<rparr>, Value = ''foobar''\<rparr>)\<rparr>)"
  using ExpressionStatement_String_ignores_Token
    [of "\<lparr>ExpressionStatement.Token = \<lparr>Type = IDENT, Literal = ''foobar''\<rparr>,
          Expression = IdentifierExpr (Some \<lparr>Identifier.Token = \<lparr>Type = IDENT,
          Literal = ''foobar''\<rparr>, Value = ''foobar''\<rparr>)\<rparr>"
        "\<lparr>ExpressionStatement.Token = \<lparr>Type = OtherType ''INT'',
          Literal = ''5''\<rparr>,
          Expression = IdentifierExpr (Some \<lparr>Identifier.Token = \<lparr>Type = IDENT,
          Literal = ''foobar''\<rparr>, Value = ''foobar''\<rparr>)\<rparr>"]
  by simp

subsection \<open>Program.String\<close>

text \<open>
  C8: when two statements render as the texts \<open>a\<close> and \<open>b\<close>, the program made of
  the two renders as \<open>a @ b\<close>, with nothing between them; and when the statements of a
  program render, in order, as the texts \<open>ts\<close>, the program renders as their
  concatenation in that order.
\<close>

theorem Program_String_concat:
  assumes "Statement_String stmtA = Inr a" and "Statement_String stmtB = Inr b"
    and "map Statement_String (Statements p) = map Inr ts"
  shows "Program_String \<lparr>Statements = [stmtA, stmtB]\<rparr> = Inr (a @ b)
       \<and> Program_String p = Inr (concat ts)"
proof
  have "map Statement_String [stmtA, stmtB] = map Inr [a, b]"
    using assms(1,2) by simp
  from Program_String_loop_append [OF this, of new_Buffer]
  show "Program_String \<lparr>Statements = [stmtA, stmtB]\<rparr> = Inr (a @ b)"
    by (simp add: Program_String_def buffer_defs)
next
  from Program_String_loop_append [OF assms(3), of new_Buffer]
  show "Program_String p = Inr (concat ts)"
    by (simp add: Program_String_def buffer_defs)
qed

theorem Program_String_concat_witness:
  "Statement_String (
      LetStmt (Some \<lparr>LetStatement.Token = \<lparr>Type = LET, Literal = ''let''\<rparr>,
        Name = Some \<lparr>Identifier.Token = \<lparr>Type = IDENT, Literal = ''x''\<rparr>,
        Value = ''x''\<rparr>,
        Value = IdentifierExpr (Some \<lparr>Identifier.Token = \<lparr>Type = IDENT,
        Literal = ''y''\<rparr>, Value = ''y''\<rparr>)\<rparr>)) = Inr ''let x = y;''
   \<and> Statement_String (
      ReturnStmt (Some \<lparr>ReturnStatement.Token = \<lparr>Type = RETURN,
        Literal = ''return''\<rparr>,
        ReturnValue = IdentifierExpr (Some \<lparr>Identifier.Token = \<lparr>Type = IDENT,
        Literal = ''x''\<rparr>, Value = ''x''\<rparr>)\<rparr>)) = Inr ''return x;''
   \<and> map Statement_String (Statements (
      \<lparr>Statements = [ExprStmt (Some \<lparr>ExpressionStatement.Token = \<lparr>Type = IDENT,
        Literal = ''a''\<rparr>,
        Expression = IdentifierExpr (Some \<lparr>Identifier.Token = \<lparr>Type = IDENT,
        Literal = ''a''\<rparr>, Value = ''a''\<rparr>)\<rparr>),
        ExprStmt (Some \<lparr>ExpressionStatement.Token = \<lparr>Type = IDENT,
        Literal = ''b''\<rparr>,
        Expression = IdentifierExpr (Some \<lparr>Identifier.Token = \<lparr>Type = IDENT,
        Literal = ''b''\<rparr>, Value = ''b''\<rparr>)\<rparr>),
        ExprStmt (Some \<lparr>ExpressionStatement.Token = \<lparr>Type = IDENT,
        Literal = ''c''\<rparr>,
        Expression = IdentifierExpr (Some \<lparr>Identifier.Token = \<lparr>Type = IDENT,
        Literal = ''c''\<rparr>, Value = ''c''\<rparr>)\<rparr>)]\<rparr>))
     = map Inr [''a'', ''b'', ''c'']
   \<and> Program_String \<lparr>Statements = [LetStmt (Some \<lparr>LetStatement.Token = \<lparr>Type = LET,
          Literal = ''let''\<rparr>,
          Name = Some \<lparr>Identifier.Token = \<lparr>Type = IDENT, Literal = ''x''\<rparr>,
          Value = ''x''\<rparr>,
          Value = IdentifierExpr (Some \<lparr>Identifier.Token = \<lparr>Type = IDENT,
          Literal = ''y''\<rparr>, Value = ''y''\<rparr>)\<rparr>),
        ReturnStmt (Some \<lparr>ReturnStatement.Token = \<lparr>Type = RETURN,
          Literal = ''return''\<rparr>,
          ReturnValue = IdentifierExpr (Some \<lparr>Identifier.Token = \<lparr>Type = IDENT,
          Literal = ''x''\<rparr>, Value = ''x''\<rparr>)\<rparr>)]\<rparr>
     = Inr ''let x = y;return x;''
   \<and> Program_String (
      \<lparr>Statements = [ExprStmt (Some \<lparr>ExpressionStatement.Token = \<lparr>Type = IDENT,
        Literal = ''a''\<rparr>,
        Expression = IdentifierExpr (Some \<lparr>Identifier.Token = \<lparr>Type = IDENT,
        Literal = ''a''\<rparr>, Value = ''a''\<rparr>)\<rparr>),
        ExprStmt (Some \<lparr>ExpressionStatement.Token = \<lparr>Type = IDENT,
        Literal = ''b''\<rparr>,
        Expression = IdentifierExpr (Some \<lparr>Identifier.Token = \<lparr>Type = IDENT,
        Literal = ''b''\<rparr>, Value = ''b''\<rparr>)\<rparr>),
        ExprStmt (Some \<lparr>ExpressionStatement.Token = \<lparr>Type = IDENT,
        Literal = ''c''\<rparr>,
        Expression = IdentifierExpr (Some \<lparr>Identifier.Token = \<lparr>Type = IDENT,
        Literal = ''c''\<rparr>, Value = ''c''\<rparr>)\<rparr>)]\<rparr>) = Inr ''abc''"
proof -
  have A: "Statement_String (
      LetStmt (Some \<lparr>LetStatement.Token = \<lparr>Type = LET, Literal = ''let''\<rparr>,
        Name = Some \<lparr>Identifier.Token = \<lparr>Type = IDENT, Literal = ''x''\<rparr>,
        Value = ''x''\<rparr>,
        Value = IdentifierExpr (Some \<lparr>Identifier.Token = \<lparr>Type = IDENT,
        Literal = ''y''\<rparr>, Value = ''y''\<rparr>)\<rparr>)) = Inr ''let x = y;''"
    by (simp add: deref_Some LetStatement_String_eq Identifier_String_def)
  have B: "Statement_String (
      ReturnStmt (Some \<lparr>ReturnStatement.Token = \<lparr>Type = RETURN,
        Literal = ''return''\<rparr>,
        ReturnValue = IdentifierExpr (Some \<lparr>Identifier.Token = \<lparr>Type = IDENT,
        Literal = ''x''\<rparr>, Value = ''x''\<rparr>)\<rparr>)) = Inr ''return x;''"
    by (simp add: deref_Some ReturnStatement_String_eq Identifier_String_def)
  have P: "map Statement_String (Statements (
      \<lparr>Statements = [ExprStmt (Some \<lparr>ExpressionStatement.Token = \<lparr>Type = IDENT,
        Literal = ''a''\<rparr>,
        Expression = IdentifierExpr (Some \<lparr>Identifier.Token = \<lparr>Type = IDENT,
        Literal = ''a''\<rparr>, Value = ''a''\<rparr>)\<rparr>),
        ExprStmt (Some \<lparr>ExpressionStatement.Token = \<lparr>Type = IDENT,
        Literal = ''b''\<rparr>,
        Expression = IdentifierExpr (Some \<lparr>Identifier.Token = \<lparr>Type = IDENT,
        Literal = ''b''\<rparr>, Value = ''b''\<rparr>)\<rparr>),
        ExprStmt (Some \<lparr>ExpressionStatement.Token = \<lparr>Type = IDENT,
        Literal = ''c''\<rparr>,
        Expression = IdentifierExpr (Some \<lparr>Identifier.Token = \<lparr>Type = IDENT,
        Literal = ''c''\<rparr>, Value = ''c''\<rparr>)\<rparr>)]\<rparr>))
     = map Inr [''a'', ''b'', ''c'']"
    by (simp add: deref_Some ExpressionStatement_String_eq Identifier_String_def)
  from Program_String_concat [OF A B P] A B P show ?thesis
    by simp
qed

subsection \<open>Effects of String\<close>

lemma Expression_String_call_eq: "Expression_String_call e = (e, Expression_String e)"
  by (cases e)
     (simp_all add: Identifier_String_call_def Identifier_String_def deref_def split: option.split)

lemma LetStatement_String_call_eq: "LetStatement_String_call ls = (ls, LetStatement_String ls)"
  by (cases "Name ls")
     (simp_all add: LetStatement_String_call_def LetStatement_String_def Identifier_String_call_def
        Identifier_String_def Expression_String_call_eq deref_def Let_def split: sum.split)

lemma ReturnStatement_String_call_eq:
  "ReturnStatement_String_call rs = (rs, ReturnStatement_String rs)"
  by (simp add: ReturnStatement_String_call_def ReturnStatement_String_def
        Expression_String_call_eq Let_def split: sum.split)

lemma ExpressionStatement_String_call_eq:
  "ExpressionStatement_String_call es = (es, ExpressionStatement_String es)"
  by (simp add: ExpressionStatement_String_call_def ExpressionStatement_String_def
        Expression_String_call_eq)

lemma Statement_String_call_eq: "Statement_String_call s = (s, Statement_String s)"
  by (cases s)
     (simp_all add: LetStatement_String_call_eq ReturnStatement_String_call_eq
        ExpressionStatement_String_call_eq deref_def split: option.split)

lemma Program_String_loop_call_eq:
  "Program_String_loop_call ss out = (ss, Program_String_loop ss out)"
  by (induction ss arbitrary: out) (simp_all add: Statement_String_call_eq split: sum.split)

lemma Program_String_call_eq: "Program_String_call p = (p, Program_String p)"
  by (simp add: Program_String_call_def Program_String_def Program_String_loop_call_eq
      split: sum.split)

lemma Node_String_call_eq: "Node_String_call n = (n, Node_String n)"
  by (cases n)
     (simp_all add: Program_String_call_eq Statement_String_call_eq Expression_String_call_eq
        deref_def split: option.split)

text \<open>
  C9: for every node, a call of \<^verbatim>\<open>String\<close> leaves the node, with everything below
  it, as it was, and a second call on the node as the first call left it returns the
  same result as the first.
\<close>

theorem Node_String_call_unchanged:
  "fst (Node_String_call n) = n
   \<and> snd (Node_String_call (fst (Node_String_call n))) = snd (Node_String_call n)"
  by (simp add: Node_String_call_eq)

end
